theory Spec2Isabelle
  imports Complex_Main
begin

section \<open>The behaviour-tree condition node \<open>FrameEmptyCondition\<close>\<close>

text \<open>
  Source: \<^verbatim>\<open>kuka_behaviortree/plugins/condition/frame_empty.cpp\<close>.
  The class derives from \<^verbatim>\<open>BT::ConditionNode\<close> and has no data members of its own:
  everything \<^verbatim>\<open>tick()\<close> reads or writes is the node configuration (immutable after
  construction) and the shared blackboard (mutable).  The blackboard is therefore passed in
  and returned; an exception leaving a call is the \<open>Inl\<close> branch of the returned result,
  next to the blackboard as it is at the moment of the throw.
\<close>

subsection \<open>The host framework as the node sees it\<close>

datatype NodeStatus = IDLE | RUNNING | SUCCESS | FAILURE

text \<open>
  Modelled from the spec: the type-erased value of a blackboard entry
  (\<^verbatim>\<open>BT::Any\<close> of behaviortree_cpp_v3, which is not part of this repository).  The spec (section 3)
  describes the blackboard as "a process-wide mapping from string keys to typed values
  (here, at least string and bool)"; \<open>AnyInt\<close> stands for an entry of any further type.
\<close>

datatype Any = AnyBool bool | AnyString string | AnyInt int

type_synonym Blackboard = "string \<rightharpoonup> Any"

text \<open>
  The two failures the framework calls used by the node can report: a port that the node
  configuration does not wire (\<^verbatim>\<open>getInput\<close> / \<^verbatim>\<open>setOutput\<close> return it as a
  \<^verbatim>\<open>BT::Result\<close>), and a blackboard entry that is missing or of the wrong type
  (thrown by \<^verbatim>\<open>Blackboard::get<T>\<close>).  Each carries the key concerned.
\<close>

datatype error = PortNotConfigured string | BlackboardEntryError string

text \<open>
  Modelled from the spec: \<^verbatim>\<open>BT::NodeConfiguration\<close> (behaviortree_cpp_v3, not part of this
  repository), restricted to the two port tables the node uses.  An input port is wired either to
  a literal text or to the key of a blackboard entry; an output port is wired to the key of
  the blackboard entry that receives the value.  A port the tree does not wire is absent
  from the table.
\<close>

datatype PortSource = Text string | Entry string

record NodeConfiguration =
  input_ports :: "string \<rightharpoonup> PortSource"
  output_ports :: "string \<rightharpoonup> string"

text \<open>
  Modelled from the spec: \<^verbatim>\<open>Blackboard::get<bool>(key)\<close> (behaviortree_cpp_v3, not part of this
  repository).  Spec section 4.1: "if the blackboard key is absent or not a boolean, the
  lookup must fail with a typed missing/invalid blackboard entry error rather than crashing
  or returning a default".
\<close>

definition Blackboard_get_bool :: "Blackboard \<Rightarrow> string \<Rightarrow> error + bool" where
  "Blackboard_get_bool bb key =
     (case bb key of
        Some (AnyBool b) \<Rightarrow> Inr b
      | _ \<Rightarrow> Inl (BlackboardEntryError key))"

text \<open>
  Modelled from the spec: \<^verbatim>\<open>Blackboard::set<std::string>(key, value)\<close>
  (behaviortree_cpp_v3, not part of this repository): the store "consumed via get/set by string key"
  (spec section 6); the entry under the key becomes the string value, whatever was there.
\<close>

definition Blackboard_set_string :: "Blackboard \<Rightarrow> string \<Rightarrow> string \<Rightarrow> Blackboard" where
  "Blackboard_set_string bb key v = bb(key \<mapsto> AnyString v)"

text \<open>
  Modelled from the spec: \<^verbatim>\<open>TreeNode::getInput<std::string>(key, destination)\<close>
  (behaviortree_cpp_v3, not part of this repository).  It returns a \<^verbatim>\<open>BT::Result\<close> and assigns the
  by-reference destination only when it succeeds, so the model takes the destination's
  current value and returns the result together with the destination's new value.  The read
  fails when the port is not wired, or when it is wired to a blackboard entry that is
  missing or not a string.
\<close>

definition getInput ::
  "NodeConfiguration \<Rightarrow> Blackboard \<Rightarrow> string \<Rightarrow> string \<Rightarrow> (error + unit) \<times> string" where
  "getInput conf bb key destination =
     (case input_ports conf key of
        None \<Rightarrow> (Inl (PortNotConfigured key), destination)
      | Some (Text s) \<Rightarrow> (Inr (), s)
      | Some (Entry k) \<Rightarrow>
          (case bb k of
             Some (AnyString s) \<Rightarrow> (Inr (), s)
           | _ \<Rightarrow> (Inl (BlackboardEntryError k), destination)))"

text \<open>
  Modelled from the spec: \<^verbatim>\<open>TreeNode::setOutput<std::string>(key, value)\<close>
  (behaviortree_cpp_v3, not part of this repository).  Spec section 4.1: the output port is "set to the
  value" handed over.  The value goes to the blackboard entry the port is wired to; for a
  port that is not wired the call returns a failed \<^verbatim>\<open>BT::Result\<close> and stores nothing.
\<close>

definition setOutput ::
  "NodeConfiguration \<Rightarrow> Blackboard \<Rightarrow> string \<Rightarrow> string \<Rightarrow> (error + unit) \<times> Blackboard" where
  "setOutput conf bb key v =
     (case output_ports conf key of
        None \<Rightarrow> (Inl (PortNotConfigured key), bb)
      | Some k \<Rightarrow> (Inr (), Blackboard_set_string bb k v))"

subsection \<open>The node\<close>

text \<open>
  \<^verbatim>\<open>
  bool isFrameEmpty()
  {
    std::string check_frame;
    bool bb_frame;
    getInput("check_frame", check_frame);
    bb_frame = config().blackboard->get<bool>(check_frame);

    if (bb_frame) {
      setOutput("empty_frame", check_frame);
      return true;
    } else {
      return false;
    }
  }
  \<close>
  The \<^verbatim>\<open>BT::Result\<close> values of \<^verbatim>\<open>getInput\<close> and \<^verbatim>\<open>setOutput\<close> are discarded by the
  source; the exception of \<^verbatim>\<open>get<bool>\<close> is not caught, so it leaves the function.
\<close>

definition isFrameEmpty :: "NodeConfiguration \<Rightarrow> Blackboard \<Rightarrow> (error + bool) \<times> Blackboard" where
  "isFrameEmpty conf bb =
     (let check_frame = [];
          (_, check_frame) = getInput conf bb ''check_frame'' check_frame
      in case Blackboard_get_bool bb check_frame of
           Inl e \<Rightarrow> (Inl e, bb)
         | Inr bb_frame \<Rightarrow>
             if bb_frame then
               (let (_, bb') = setOutput conf bb ''empty_frame'' check_frame
                in (Inr True, bb'))
             else (Inr False, bb))"

text \<open>
  \<^verbatim>\<open>
  BT::NodeStatus tick() override
  {
   if (isFrameEmpty()) {
      return BT::NodeStatus::SUCCESS;
    }
    return BT::NodeStatus::FAILURE;
  }
  \<close>
\<close>

definition tick :: "NodeConfiguration \<Rightarrow> Blackboard \<Rightarrow> (error + NodeStatus) \<times> Blackboard" where
  "tick conf bb =
     (case isFrameEmpty conf bb of
        (Inl e, bb') \<Rightarrow> (Inl e, bb')
      | (Inr b, bb') \<Rightarrow> (Inr (if b then SUCCESS else FAILURE), bb'))"

text \<open>The destructor calls \<^verbatim>\<open>cleanup()\<close>, whose body is empty.\<close>

definition cleanup :: "Blackboard \<Rightarrow> Blackboard" where
  "cleanup bb = bb"

subsection \<open>Declared ports and registration\<close>

datatype PortDirection = INPUT | OUTPUT | INOUT

datatype PortType = StdString | Boolean

record PortInfo =
  direction :: PortDirection
  port_type :: PortType
  description :: string

text \<open>
  \<^verbatim>\<open>
  static BT::PortsList providedPorts()
  {
    return {
      BT::InputPort<std::string>("frame", "Which frame to check if empty"),
      BT::OutputPort<std::string>("empty_frame", "Which frame found to be empty"),
    };
  }
  \<close>
\<close>

definition providedPorts :: "(string \<times> PortInfo) list" where
  "providedPorts =
     [(''frame'',
         \<lparr>direction = INPUT, port_type = StdString,
          description = ''Which frame to check if empty''\<rparr>),
      (''empty_frame'',
         \<lparr>direction = OUTPUT, port_type = StdString,
          description = ''Which frame found to be empty''\<rparr>)]"

text \<open>
  Modelled from the spec: \<^verbatim>\<open>BehaviorTreeFactory::registerNodeType<T>(ID)\<close>
  (behaviortree_cpp_v3, not part of this repository).  Spec section 6: the node "registers itself under
  the name" given, "with declared ports"; the factory is the table from registration IDs to
  the port lists of the node types.
\<close>

type_synonym BehaviorTreeFactory = "string \<rightharpoonup> (string \<times> PortInfo) list"

definition registerNodeType ::
  "string \<Rightarrow> (string \<times> PortInfo) list \<Rightarrow> BehaviorTreeFactory \<Rightarrow> BehaviorTreeFactory" where
  "registerNodeType ID ports factory = factory(ID \<mapsto> ports)"

text \<open>
  \<^verbatim>\<open>
  BT_REGISTER_NODES(factory)
  {
    factory.registerNodeType<kmr_behavior_tree::FrameEmptyCondition>("FrameEmpty");
  }
  \<close>
\<close>

definition BT_REGISTER_NODES :: "BehaviorTreeFactory \<Rightarrow> BehaviorTreeFactory" where
  "BT_REGISTER_NODES factory = registerNodeType ''FrameEmpty'' providedPorts factory"

section \<open>The planning demo driver \<open>MoveItCppDemo\<close>\<close>

text \<open>
  Source: \<^verbatim>\<open>kuka_moveit2/src/run_moveit.cpp\<close>.  The driver sequences calls into the
  motion-planning library.  The library is an external collaborator: what it answers
  (planning pipeline names, the plan, the clock, message conversions) is an input of the
  model, collected in the record \<open>Environment\<close>; what the driver does to the outside
  (log lines, plan requests, sleeps, publications) is the returned list of events, in the
  order of the calls.
\<close>

subsection \<open>Library data as the driver sees it\<close>

text \<open>
  Modelled from the spec: \<^verbatim>\<open>PlanningComponent::PlanRequestParameters\<close> (MoveIt, not part of this
  repository), with the five fields \<^verbatim>\<open>move()\<close> assigns: the "fixed parameters (one attempt,
  5-second budget, 40% velocity/acceleration scaling)" of spec section 4.2 and the pipeline
  name.  The three \<^verbatim>\<open>double\<close> fields only ever receive the literals of the source, which
  are written here as the decimal numbers they denote.
\<close>

record PlanRequestParameters =
  planning_pipeline :: string
  planning_attempts :: int
  planning_time :: real
  max_velocity_scaling_factor :: real
  max_acceleration_scaling_factor :: real

text \<open>
  Modelled from the spec: robot states, trajectories and the messages made from them
  (MoveIt and ROS message types, not part of this repository).  A robot state is its joint positions; a
  trajectory is its waypoints in order, each with its scheduled time from the start of the
  trajectory ("waypoints paced to their scheduled times", spec section 4.2), kept as the
  \<^verbatim>\<open>rclcpp::Duration\<close> in nanoseconds that the source builds from it.  The source reads
  waypoint \<open>i\<close> only under the loop guard \<open>i < getWayPointCount\<close>, and so does the model.
\<close>

type_synonym RobotState = "real list"

type_synonym RobotTrajectory = "(RobotState \<times> int) list"

definition getWayPointCount :: "RobotTrajectory \<Rightarrow> nat" where
  "getWayPointCount trajectory = length trajectory"

definition getWayPoint :: "RobotTrajectory \<Rightarrow> nat \<Rightarrow> RobotState" where
  "getWayPoint trajectory i = fst (trajectory ! i)"

definition getWayPointDurationFromStart :: "RobotTrajectory \<Rightarrow> nat \<Rightarrow> int" where
  "getWayPointDurationFromStart trajectory i = snd (trajectory ! i)"

type_synonym RobotStateMsg = "real list"

record DisplayRobotState =
  state :: RobotStateMsg
  highlight_links :: "string list"

type_synonym JointTrajectory = "(real list \<times> int) list"

record RobotTrajectoryMsg =
  joint_trajectory :: JointTrajectory
  multi_dof_joint_trajectory :: JointTrajectory

record PoseStamped =
  frame_id :: string
  position :: "real \<times> real \<times> real"
  orientation :: "real \<times> real \<times> real \<times> real"

text \<open>The goal held by the planning component: a named target or a pose for a link.\<close>

datatype Goal = NamedGoal string | PoseGoal PoseStamped string

record PlanningComponent =
  group_name :: string
  goal :: "Goal option"

text \<open>
  Modelled from the spec: the answers of the planning library and of the node clock (not part of this
  repository).  \<open>getPlanningPipelineNames\<close> gives the \<^verbatim>\<open>std::set<std::string>\<close> of the
  source as the list of its elements in iteration order; \<open>plan\<close> is \<^verbatim>\<open>arm->plan\<close>, whose
  result converts to \<^verbatim>\<open>true\<close> exactly when it carries a trajectory; \<open>now k\<close> is what the
  \<open>k\<close>-th reading of \<^verbatim>\<open>node_->now()\<close> returns, in nanoseconds.
\<close>

record Environment =
  getPlanningPipelineNames :: "string \<Rightarrow> string list"
  plan :: "PlanningComponent \<Rightarrow> PlanRequestParameters \<Rightarrow> RobotTrajectory option"
  now :: "nat \<Rightarrow> int"
  robotStateToRobotStateMsg :: "RobotState \<Rightarrow> RobotStateMsg"
  getRobotTrajectoryMsg :: "RobotTrajectory \<Rightarrow> RobotTrajectoryMsg"

datatype event =
    LogInfo string
  | PlanRequest PlanRequestParameters
  | SleepFor int
  | PublishRobotState DisplayRobotState
  | PublishJointTrajectory JointTrajectory

subsection \<open>The driver object\<close>

text \<open>
  The members \<^verbatim>\<open>moveit_cpp_\<close> and \<^verbatim>\<open>arm\<close> are shared pointers that are null until
  \<^verbatim>\<open>init()\<close> has run; \<^verbatim>\<open>moveit_cpp_\<close> carries no data the driver reads, so it is
  \<open>unit option\<close> (field \<open>moveit_cpp\<close>: an identifier cannot end in an underscore here).
  \<open>clock_reads\<close> counts the readings of the node clock so far.
\<close>

record MoveItCppDemo =
  moveit_cpp :: "unit option"
  arm :: "PlanningComponent option"
  planning_pipeline_names :: "string list"
  default_parameters :: PlanRequestParameters
  clock_reads :: nat

datatype demo_error = NullPointerDereference

text \<open>
  Of \<^verbatim>\<open>init()\<close> only the two assignments to members are modelled:
  \<^verbatim>\<open>
    moveit_cpp_ = std::make_shared<moveit::planning_interface::MoveItCpp>(node_);
    arm = std::make_shared<moveit::planning_interface::PlanningComponent>("manipulator", moveit_cpp_);
  \<close>
  The rest of the function works on local variables only.
\<close>

definition init :: "MoveItCppDemo \<Rightarrow> MoveItCppDemo" where
  "init demo = demo\<lparr>moveit_cpp := Some (),
                    arm := Some \<lparr>group_name = ''manipulator'', goal = None\<rparr>\<rparr>"

text \<open>
  \<^verbatim>\<open>
  for (size_t i = 0; i < trajectory.getWayPointCount(); ++i)
  {
    moveit::core::robotStateToRobotStateMsg(trajectory.getWayPoint(i), waypoint.state);
    const auto waypoint_time =
        start_time + rclcpp::Duration::from_seconds(trajectory.getWayPointDurationFromStart(i));
    const auto now = node_->now();
    if (waypoint_time > now)
      rclcpp::sleep_for(std::chrono::nanoseconds((waypoint_time - now).nanoseconds()));

    robot_state_publisher_->publish(waypoint);
  }
  \<close>
  The loop, from index \<open>i\<close> on; \<open>reads\<close> is the number of clock readings made before.
\<close>

function visualizeLoop ::
  "Environment \<Rightarrow> RobotTrajectory \<Rightarrow> int \<Rightarrow> nat \<Rightarrow> DisplayRobotState \<Rightarrow> nat \<Rightarrow> nat \<times> event list" where
  "visualizeLoop env trajectory start_time i waypoint reads =
     (if i < getWayPointCount trajectory then
        (let waypoint = waypoint\<lparr>state := robotStateToRobotStateMsg env (getWayPoint trajectory i)\<rparr>;
             waypoint_time = start_time + getWayPointDurationFromStart trajectory i;
             now_i = now env reads;
             sleeping = (if waypoint_time > now_i then [SleepFor (waypoint_time - now_i)] else []);
             (reads', evs) = visualizeLoop env trajectory start_time (Suc i) waypoint (Suc reads)
         in (reads', sleeping @ [PublishRobotState waypoint] @ evs))
      else (reads, []))"
  by pat_completeness auto
termination
  by (relation "measure (\<lambda>(env, trajectory, start_time, i, waypoint, reads).
                           getWayPointCount trajectory - i)") auto

declare visualizeLoop.simps [simp del]

text \<open>
  \<^verbatim>\<open>
  void visualizeTrajectory(const robot_trajectory::RobotTrajectory& trajectory)
  {
    moveit_msgs::msg::DisplayRobotState waypoint;
    const auto start_time = node_->now();
    for (...) { ... }
  }
  \<close>
\<close>

definition visualizeTrajectory ::
  "Environment \<Rightarrow> MoveItCppDemo \<Rightarrow> RobotTrajectory \<Rightarrow> MoveItCppDemo \<times> event list" where
  "visualizeTrajectory env demo trajectory =
     (let waypoint = \<lparr>state = [], highlight_links = []\<rparr>;
          start_time = now env (clock_reads demo);
          (reads, evs) =
             visualizeLoop env trajectory start_time 0 waypoint (Suc (clock_reads demo))
      in (demo\<lparr>clock_reads := reads\<rparr>, evs))"

text \<open>
  \<^verbatim>\<open>
  void move(){
    RCLCPP_INFO(LOGGER, "Plan to goal");

    default_parameters.planning_attempts = 1;
    default_parameters.planning_time = 5.0;
    default_parameters.max_velocity_scaling_factor = 0.4;
    default_parameters.max_acceleration_scaling_factor = 0.4;

    planning_pipeline_names = moveit_cpp_->getPlanningPipelineNames("manipulator");
    if (!planning_pipeline_names.empty())
      default_parameters.planning_pipeline = *planning_pipeline_names.begin();
    const auto plan_solution = arm->plan(default_parameters);
    if (plan_solution)
    {
      visualizeTrajectory(*plan_solution.trajectory);

      RCLCPP_INFO(LOGGER, "Sending the trajectory for execution");
      moveit_msgs::msg::RobotTrajectory robot_trajectory;
      plan_solution.trajectory->getRobotTrajectoryMsg(robot_trajectory);
      trajectory_publisher_->publish(robot_trajectory.joint_trajectory);
    }
  }
  \<close>
  Using \<^verbatim>\<open>moveit_cpp_\<close> or \<^verbatim>\<open>arm\<close> while it is still null is the only way the function
  itself can fail; the model returns \<open>NullPointerDereference\<close> there.
\<close>

definition move :: "Environment \<Rightarrow> MoveItCppDemo \<Rightarrow> demo_error + MoveItCppDemo \<times> event list" where
  "move env demo =
     (let evs = [LogInfo ''Plan to goal''];
          demo = demo\<lparr>default_parameters := (default_parameters demo)\<lparr>planning_attempts := 1\<rparr>\<rparr>;
          demo = demo\<lparr>default_parameters := (default_parameters demo)\<lparr>planning_time := 5.0\<rparr>\<rparr>;
          demo = demo\<lparr>default_parameters :=
                   (default_parameters demo)\<lparr>max_velocity_scaling_factor := 0.4\<rparr>\<rparr>;
          demo = demo\<lparr>default_parameters :=
                   (default_parameters demo)\<lparr>max_acceleration_scaling_factor := 0.4\<rparr>\<rparr>
      in case moveit_cpp demo of
           None \<Rightarrow> Inl NullPointerDereference
         | Some _ \<Rightarrow>
            (let demo = demo\<lparr>planning_pipeline_names :=
                               getPlanningPipelineNames env ''manipulator''\<rparr>;
                 demo = (if planning_pipeline_names demo \<noteq> [] then
                           demo\<lparr>default_parameters :=
                                  (default_parameters demo)\<lparr>planning_pipeline :=
                                     hd (planning_pipeline_names demo)\<rparr>\<rparr>
                         else demo)
             in case arm demo of
                  None \<Rightarrow> Inl NullPointerDereference
                | Some component \<Rightarrow>
                   (let plan_solution = plan env component (default_parameters demo);
                        evs = evs @ [PlanRequest (default_parameters demo)]
                    in case plan_solution of
                         None \<Rightarrow> Inr (demo, evs)
                       | Some trajectory \<Rightarrow>
                          (let (demo, shown) = visualizeTrajectory env demo trajectory;
                               evs = evs @ shown @ [LogInfo ''Sending the trajectory for execution''];
                               robot_trajectory = getRobotTrajectoryMsg env trajectory
                           in Inr (demo,
                                   evs @ [PublishJointTrajectory
                                            (joint_trajectory robot_trajectory)])))))"

text \<open>
  \<^verbatim>\<open>
  void frame_callback(std_msgs::msg::String::SharedPtr msg){
    RCLCPP_INFO(LOGGER, "Frame Received: %s", msg->data);
    arm->setGoal(msg->data);
    move();
  }
  \<close>
\<close>

definition frame_callback ::
  "Environment \<Rightarrow> MoveItCppDemo \<Rightarrow> string \<Rightarrow> demo_error + MoveItCppDemo \<times> event list" where
  "frame_callback env demo msg =
     (case arm demo of
        None \<Rightarrow> Inl NullPointerDereference
      | Some component \<Rightarrow>
         (case move env (demo\<lparr>arm := Some (component\<lparr>goal := Some (NamedGoal msg)\<rparr>)\<rparr>) of
            Inl e \<Rightarrow> Inl e
          | Inr (demo', evs) \<Rightarrow> Inr (demo', LogInfo ''Frame Received: %s'' # evs)))"

text \<open>
  \<^verbatim>\<open>
  void goalpose_callback(geometry_msgs::msg::PoseStamped::SharedPtr msg)
  {
    RCLCPP_INFO(LOGGER, "GoalPose Received: %f, %f, %f", ...);
    arm->setGoal(*msg,"tool0");
    move();
  }
  \<close>
\<close>

definition goalpose_callback ::
  "Environment \<Rightarrow> MoveItCppDemo \<Rightarrow> PoseStamped \<Rightarrow> demo_error + MoveItCppDemo \<times> event list" where
  "goalpose_callback env demo msg =
     (case arm demo of
        None \<Rightarrow> Inl NullPointerDereference
      | Some component \<Rightarrow>
         (case move env (demo\<lparr>arm := Some (component\<lparr>goal := Some (PoseGoal msg ''tool0'')\<rparr>)\<rparr>) of
            Inl e \<Rightarrow> Inl e
          | Inr (demo', evs) \<Rightarrow>
              Inr (demo', LogInfo ''GoalPose Received: %f, %f, %f'' # evs)))"

text \<open>The plan requests and the publications among the events of a run, in order.\<close>

fun plan_requests :: "event list \<Rightarrow> PlanRequestParameters list" where
  "plan_requests [] = []"
| "plan_requests (PlanRequest p # evs) = p # plan_requests evs"
| "plan_requests (_ # evs) = plan_requests evs"

fun publications :: "event list \<Rightarrow> event list" where
  "publications [] = []"
| "publications (PublishRobotState w # evs) = PublishRobotState w # publications evs"
| "publications (PublishJointTrajectory t # evs) = PublishJointTrajectory t # publications evs"
| "publications (_ # evs) = publications evs"

text \<open>
  The parameters \<^verbatim>\<open>default_parameters\<close> holds when \<^verbatim>\<open>move()\<close> reaches
  \<^verbatim>\<open>arm->plan(default_parameters)\<close>: the four assignments, then the pipeline name when
  the library names at least one pipeline.  Used to state the lemmas about \<open>move\<close> below.
\<close>

definition requested :: "Environment \<Rightarrow> MoveItCppDemo \<Rightarrow> PlanRequestParameters" where
  "requested env demo =
     (let p = (default_parameters demo)\<lparr>planning_attempts := 1, planning_time := 5.0,
                 max_velocity_scaling_factor := 0.4, max_acceleration_scaling_factor := 0.4\<rparr>
      in if getPlanningPipelineNames env ''manipulator'' \<noteq> []
         then p\<lparr>planning_pipeline := hd (getPlanningPipelineNames env ''manipulator'')\<rparr>
         else p)"

section \<open>Concrete inputs\<close>

text \<open>
  The scenario of spec section 8: the condition input \<^verbatim>\<open>check_frame="frameA"\<close> given as
  literal text, the output port wired to the blackboard entry of its own name, and the
  blackboards \<^verbatim>\<open>{"frameA": true}\<close> and \<^verbatim>\<open>{"frameA": false}\<close>.
\<close>

definition scenario_conf :: NodeConfiguration where
  "scenario_conf = \<lparr>input_ports = [''check_frame'' \<mapsto> Text ''frameA''],
                    output_ports = [''empty_frame'' \<mapsto> ''empty_frame'']\<rparr>"

definition scenario_true :: Blackboard where
  "scenario_true = [''frameA'' \<mapsto> AnyBool True]"

definition scenario_false :: Blackboard where
  "scenario_false = [''frameA'' \<mapsto> AnyBool False]"

text \<open>Blackboards without the entry, and with an entry that is not a boolean.\<close>

definition scenario_missing :: Blackboard where
  "scenario_missing = Map.empty"

definition scenario_mistyped :: Blackboard where
  "scenario_mistyped = [''frameA'' \<mapsto> AnyString ''yes'']"









text \<open>
  A node wired through its declared ports only (\<^verbatim>\<open>frame\<close> and \<^verbatim>\<open>empty_frame\<close>), and a
  blackboard that holds a boolean under the empty key.
\<close>

definition declared_only_conf :: NodeConfiguration where
  "declared_only_conf = \<lparr>input_ports = [''frame'' \<mapsto> Text ''frameA''],
                         output_ports = [''empty_frame'' \<mapsto> ''empty_frame'']\<rparr>"

definition empty_key_true :: Blackboard where
  "empty_key_true = [[] \<mapsto> AnyBool True]"

text \<open>
  A driver object before \<^verbatim>\<open>init()\<close>, a trajectory of two waypoints (the second scheduled
  half a second after the start), and a planning library that does, or does not, find it.
\<close>

definition fresh_demo :: MoveItCppDemo where
  "fresh_demo =
     \<lparr>moveit_cpp = None, arm = None, planning_pipeline_names = [],
      default_parameters =
        \<lparr>planning_pipeline = [], planning_attempts = 0, planning_time = 0,
         max_velocity_scaling_factor = 0, max_acceleration_scaling_factor = 0\<rparr>,
      clock_reads = 0\<rparr>"

definition two_waypoints :: RobotTrajectory where
  "two_waypoints = [([0, 0], 0), ([1, 2], 500000000)]"

definition env_plan_found :: Environment where
  "env_plan_found =
     \<lparr>getPlanningPipelineNames = (\<lambda>g. [''ompl'']),
      plan = (\<lambda>c p. Some two_waypoints),
      now = (\<lambda>k. int k * 1000),
      robotStateToRobotStateMsg = (\<lambda>s. s),
      getRobotTrajectoryMsg = (\<lambda>t. \<lparr>joint_trajectory = t, multi_dof_joint_trajectory = []\<rparr>)\<rparr>"

definition env_no_plan :: Environment where
  "env_no_plan = env_plan_found\<lparr>plan := (\<lambda>c p. None)\<rparr>"

section \<open>Properties of the condition node\<close>

subsection \<open>The three outcomes of one evaluation\<close>

text \<open>
  One evaluation is decided by the boolean lookup under the string that \<^verbatim>\<open>check_frame\<close>
  holds after the port read.
\<close>

lemma tick_cases:
  "tick conf bb =
     (case Blackboard_get_bool bb (snd (getInput conf bb ''check_frame'' [])) of
        Inl e \<Rightarrow> (Inl e, bb)
      | Inr b \<Rightarrow>
          if b then (Inr SUCCESS,
                     snd (setOutput conf bb ''empty_frame''
                            (snd (getInput conf bb ''check_frame'' []))))
          else (Inr FAILURE, bb))"
  by (simp add: tick_def isFrameEmpty_def split: prod.splits sum.splits)

lemma tick_error:
  "Blackboard_get_bool bb (snd (getInput conf bb ''check_frame'' [])) = Inl e \<Longrightarrow>
   tick conf bb = (Inl e, bb)"
  by (simp add: tick_cases)

lemma tick_failure:
  "Blackboard_get_bool bb (snd (getInput conf bb ''check_frame'' [])) = Inr False \<Longrightarrow>
   tick conf bb = (Inr FAILURE, bb)"
  by (simp add: tick_cases)

lemma tick_success:
  "Blackboard_get_bool bb (snd (getInput conf bb ''check_frame'' [])) = Inr True \<Longrightarrow>
   tick conf bb =
     (Inr SUCCESS,
      snd (setOutput conf bb ''empty_frame'' (snd (getInput conf bb ''check_frame'' []))))"
  by (simp add: tick_cases)

lemma setOutput_wired:
  "output_ports conf key = Some k \<Longrightarrow> snd (setOutput conf bb key v) = bb(k \<mapsto> AnyString v)"
  by (simp add: setOutput_def Blackboard_set_string_def)


lemma scenario_read:
  "getInput scenario_conf bb ''check_frame'' [] = (Inr (), ''frameA'')"
  by (simp add: getInput_def scenario_conf_def)

lemma scenario_output: "output_ports scenario_conf ''empty_frame'' = Some ''empty_frame''"
  by (simp add: scenario_conf_def)

text \<open>
  C1.  When the read of \<^verbatim>\<open>check_frame\<close> yields the string \<open>v\<close> and the blackboard maps
  \<open>v\<close> to the boolean true, one evaluation of \<open>tick\<close> returns SUCCESS and hands \<open>v\<close> to the
  output port \<^verbatim>\<open>empty_frame\<close>: the blackboard entry the port is wired to holds the string
  \<open>v\<close> afterwards.
\<close>

theorem tick_true_succeeds_and_writes:
  assumes "getInput conf bb ''check_frame'' [] = (Inr (), v)"
      and "bb v = Some (AnyBool True)"
  shows "tick conf bb = (Inr SUCCESS, snd (setOutput conf bb ''empty_frame'' v)) \<and>
         (\<forall>k. output_ports conf ''empty_frame'' = Some k \<longrightarrow>
              snd (tick conf bb) k = Some (AnyString v))"
proof -
  from assms have "Blackboard_get_bool bb (snd (getInput conf bb ''check_frame'' [])) = Inr True"
    by (simp add: Blackboard_get_bool_def)
  then have "tick conf bb = (Inr SUCCESS, snd (setOutput conf bb ''empty_frame'' v))"
    using assms(1) by (simp add: tick_success)
  then show ?thesis by (simp add: setOutput_wired)
qed

theorem tick_true_succeeds_and_writes_witness:
  "getInput scenario_conf scenario_true ''check_frame'' [] = (Inr (), ''frameA'') \<and>
   scenario_true ''frameA'' = Some (AnyBool True) \<and>
   output_ports scenario_conf ''empty_frame'' = Some ''empty_frame'' \<and>
   fst (tick scenario_conf scenario_true) = Inr SUCCESS \<and>
   snd (tick scenario_conf scenario_true) ''empty_frame'' = Some (AnyString ''frameA'')"
proof -
  have t: "scenario_true ''frameA'' = Some (AnyBool True)"
    by (simp add: scenario_true_def)
  note th = tick_true_succeeds_and_writes [of scenario_conf scenario_true "''frameA''", OF scenario_read t]
  from th have "fst (tick scenario_conf scenario_true) = Inr SUCCESS" by simp
  moreover from th scenario_output
  have "snd (tick scenario_conf scenario_true) ''empty_frame'' = Some (AnyString ''frameA'')"
    by blast
  ultimately show ?thesis using scenario_read scenario_output t by simp
qed

text \<open>
  C2.  When the read of \<^verbatim>\<open>check_frame\<close> yields the string \<open>v\<close> and the blackboard maps
  \<open>v\<close> to the boolean false, one evaluation of \<open>tick\<close> returns FAILURE and leaves the whole
  blackboard, the entry of the output port \<^verbatim>\<open>empty_frame\<close> included, as it was.
\<close>

theorem tick_false_fails_without_write:
  assumes "getInput conf bb ''check_frame'' [] = (Inr (), v)"
      and "bb v = Some (AnyBool False)"
  shows "tick conf bb = (Inr FAILURE, bb)"
  using assms by (simp add: tick_failure Blackboard_get_bool_def)

theorem tick_false_fails_without_write_witness:
  "getInput scenario_conf scenario_false ''check_frame'' [] = (Inr (), ''frameA'') \<and>
   scenario_false ''frameA'' = Some (AnyBool False) \<and>
   tick scenario_conf scenario_false = (Inr FAILURE, scenario_false) \<and>
   snd (tick scenario_conf scenario_false) ''empty_frame'' = None"
proof -
  have f: "scenario_false ''frameA'' = Some (AnyBool False)"
    by (simp add: scenario_false_def)
  note th = tick_false_fails_without_write [of scenario_conf scenario_false "''frameA''", OF scenario_read f]
  have "scenario_false ''empty_frame'' = None" by (simp add: scenario_false_def)
  with th scenario_read f show ?thesis by simp
qed

text \<open>
  C3.  When the read of \<^verbatim>\<open>check_frame\<close> yields the string \<open>v\<close> and the blackboard has
  no entry under \<open>v\<close>, or an entry that is not a boolean, the evaluation ends with the
  error of the lookup (a missing or invalid blackboard entry under \<open>v\<close>): the source
  neither catches it nor substitutes a value, so no status is returned, and the blackboard
  is left as it was.
\<close>

theorem tick_missing_or_invalid_entry_is_error:
  assumes "getInput conf bb ''check_frame'' [] = (Inr (), v)"
      and "bb v = None \<or> (\<exists>x. bb v = Some x \<and> (\<forall>b. x \<noteq> AnyBool b))"
  shows "tick conf bb = (Inl (BlackboardEntryError v), bb)"
proof -
  from assms(2) have "Blackboard_get_bool bb v = Inl (BlackboardEntryError v)"
    by (auto simp: Blackboard_get_bool_def split: option.splits Any.splits)
  with assms(1) show ?thesis by (simp add: tick_error)
qed

theorem tick_missing_or_invalid_entry_is_error_witness:
  "getInput scenario_conf scenario_missing ''check_frame'' [] = (Inr (), ''frameA'') \<and>
   scenario_missing ''frameA'' = None \<and>
   tick scenario_conf scenario_missing = (Inl (BlackboardEntryError ''frameA''), scenario_missing) \<and>
   getInput scenario_conf scenario_mistyped ''check_frame'' [] = (Inr (), ''frameA'') \<and>
   scenario_mistyped ''frameA'' = Some (AnyString ''yes'') \<and>
   tick scenario_conf scenario_mistyped =
     (Inl (BlackboardEntryError ''frameA''), scenario_mistyped)"
proof -
  have m: "scenario_missing ''frameA'' = None"
    by (simp add: scenario_missing_def)
  have t: "scenario_mistyped ''frameA'' = Some (AnyString ''yes'')"
    by (simp add: scenario_mistyped_def)
  have m': "scenario_missing ''frameA'' = None \<or>
            (\<exists>x. scenario_missing ''frameA'' = Some x \<and> (\<forall>b. x \<noteq> AnyBool b))"
    using m by simp
  have t': "scenario_mistyped ''frameA'' = None \<or>
            (\<exists>x. scenario_mistyped ''frameA'' = Some x \<and> (\<forall>b. x \<noteq> AnyBool b))"
    using t by simp
  note missing =
    tick_missing_or_invalid_entry_is_error
      [of scenario_conf scenario_missing "''frameA''", OF scenario_read m']
  note mistyped =
    tick_missing_or_invalid_entry_is_error
      [of scenario_conf scenario_mistyped "''frameA''", OF scenario_read t']
  from missing mistyped m t scenario_read show ?thesis by simp
qed

subsection \<open>What the evaluation does not read\<close>







text \<open>
  The conditions of the amended C4 hold in particular when the entry \<open>kf\<close> is neither the
  one \<^verbatim>\<open>check_frame\<close> is wired to nor the one \<^verbatim>\<open>check_frame\<close> names: then both
  invocations read the same string and find the same under it, and such an entry may hold
  anything without changing the outcome or the rest of the final blackboard.
\<close>

lemma unread_entry_same_reads:
  assumes "\<forall>k. k \<noteq> kf \<longrightarrow> bb1 k = bb2 k"
      and "input_ports conf ''check_frame'' \<noteq> Some (Entry kf)"
      and "snd (getInput conf bb1 ''check_frame'' []) \<noteq> kf"
  shows "snd (getInput conf bb2 ''check_frame'' []) = snd (getInput conf bb1 ''check_frame'' []) \<and>
         Blackboard_get_bool bb1 (snd (getInput conf bb1 ''check_frame'' [])) =
         Blackboard_get_bool bb2 (snd (getInput conf bb1 ''check_frame'' []))"
proof -
  have "getInput conf bb1 ''check_frame'' [] = getInput conf bb2 ''check_frame'' []"
    using assms(1,2) by (auto simp: getInput_def split: option.splits PortSource.splits)
  moreover have "bb1 (snd (getInput conf bb1 ''check_frame'' [])) =
                 bb2 (snd (getInput conf bb1 ''check_frame'' []))"
    using assms(1,3) by simp
  ultimately show ?thesis by (simp add: Blackboard_get_bool_def)
qed

lemma tick_ignores_unread_entry:
  assumes "\<forall>k. k \<noteq> kf \<longrightarrow> bb1 k = bb2 k"
      and "input_ports conf ''check_frame'' \<noteq> Some (Entry kf)"
      and "snd (getInput conf bb1 ''check_frame'' []) \<noteq> kf"
  shows "fst (tick conf bb1) = fst (tick conf bb2) \<and>
         (\<forall>k. k \<noteq> kf \<longrightarrow> snd (tick conf bb1) k = snd (tick conf bb2) k)"
proof -
  have r: "getInput conf bb1 ''check_frame'' [] = getInput conf bb2 ''check_frame'' []"
    using assms(1,2) by (auto simp: getInput_def split: option.splits PortSource.splits)
  define v where "v = snd (getInput conf bb1 ''check_frame'' [])"
  have v2: "snd (getInput conf bb2 ''check_frame'' []) = v" using r by (simp add: v_def)
  have "bb1 v = bb2 v" using assms(1,3) by (simp add: v_def)
  then have l: "Blackboard_get_bool bb1 v = Blackboard_get_bool bb2 v"
    by (simp add: Blackboard_get_bool_def)
  show ?thesis
    using l assms(1) v2
    by (auto simp: tick_cases v_def [symmetric] setOutput_def Blackboard_set_string_def
          split: sum.splits option.splits)
qed

subsection \<open>Evaluating twice\<close>






subsection \<open>What one evaluation changes\<close>

text \<open>
  C6.  One evaluation changes at most the blackboard entry that the output port
  \<^verbatim>\<open>empty_frame\<close> is wired to: every other entry holds the same value afterwards, and
  when \<open>tick\<close> returns FAILURE, or ends with an error, the blackboard is unchanged as a
  whole.
\<close>

theorem tick_changes_only_empty_frame_entry:
  "(\<forall>k. output_ports conf ''empty_frame'' \<noteq> Some k \<longrightarrow> snd (tick conf bb) k = bb k) \<and>
   (fst (tick conf bb) = Inr FAILURE \<longrightarrow> snd (tick conf bb) = bb) \<and>
   (\<forall>e. fst (tick conf bb) = Inl e \<longrightarrow> snd (tick conf bb) = bb)"
  by (auto simp: tick_cases setOutput_def Blackboard_set_string_def
        split: sum.splits option.splits if_splits)

theorem tick_changes_only_empty_frame_entry_witness:
  "output_ports scenario_conf ''empty_frame'' \<noteq> Some ''frameA'' \<and>
   fst (tick scenario_conf scenario_true) = Inr SUCCESS \<and>
   snd (tick scenario_conf scenario_true) ''frameA'' = scenario_true ''frameA'' \<and>
   fst (tick scenario_conf scenario_false) = Inr FAILURE \<and>
   snd (tick scenario_conf scenario_false) = scenario_false \<and>
   fst (tick scenario_conf scenario_missing) = Inl (BlackboardEntryError ''frameA'') \<and>
   snd (tick scenario_conf scenario_missing) = scenario_missing"
proof -
  have o: "output_ports scenario_conf ''empty_frame'' \<noteq> Some ''frameA''"
    by (simp add: scenario_output)
  have s: "fst (tick scenario_conf scenario_true) = Inr SUCCESS"
    by (simp add: tick_cases scenario_read Blackboard_get_bool_def scenario_true_def)
  have f: "fst (tick scenario_conf scenario_false) = Inr FAILURE"
    by (simp add: tick_cases scenario_read Blackboard_get_bool_def scenario_false_def)
  have e: "fst (tick scenario_conf scenario_missing) = Inl (BlackboardEntryError ''frameA'')"
    by (simp add: tick_cases scenario_read Blackboard_get_bool_def scenario_missing_def)
  from tick_changes_only_empty_frame_entry [of scenario_conf scenario_true] o
  have "snd (tick scenario_conf scenario_true) ''frameA'' = scenario_true ''frameA''"
    by blast
  moreover from tick_changes_only_empty_frame_entry [of scenario_conf scenario_false] f
  have "snd (tick scenario_conf scenario_false) = scenario_false"
    by blast
  moreover from tick_changes_only_empty_frame_entry [of scenario_conf scenario_missing] e
  have "snd (tick scenario_conf scenario_missing) = scenario_missing"
    by blast
  ultimately show ?thesis using o s f e by simp
qed

subsection \<open>Declared ports, registration, and the port that is read\<close>

lemma getInput_failed_keeps_destination:
  "fst (getInput conf bb key d) = Inl e \<Longrightarrow> snd (getInput conf bb key d) = d"
  by (auto simp: getInput_def split: option.splits PortSource.splits Any.splits)

text \<open>
  C7.  The registration enters the node type under the ID \<^verbatim>\<open>FrameEmpty\<close>, with the port
  list of \<^verbatim>\<open>providedPorts()\<close>: the input port \<^verbatim>\<open>frame\<close> and the output port
  \<^verbatim>\<open>empty_frame\<close>, both of string type, and nothing else.  The port the evaluation reads,
  \<^verbatim>\<open>check_frame\<close>, is not in that list; a node wired through its declared ports only reads
  nothing, looks up the empty key and ends with the lookup's error, even on the blackboard
  \<^verbatim>\<open>{"frameA": true}\<close> with \<^verbatim>\<open>frame="frameA"\<close>.
\<close>

theorem providedPorts_omit_check_frame:
  "BT_REGISTER_NODES Map.empty = [''FrameEmpty'' \<mapsto> providedPorts] \<and>
   map fst providedPorts = [''frame'', ''empty_frame''] \<and>
   map (direction \<circ> snd) providedPorts = [INPUT, OUTPUT] \<and>
   map (port_type \<circ> snd) providedPorts = [StdString, StdString] \<and>
   ''check_frame'' \<notin> set (map fst providedPorts) \<and>
   tick declared_only_conf scenario_true = (Inl (BlackboardEntryError []), scenario_true)"
proof -
  have "getInput declared_only_conf scenario_true ''check_frame'' [] =
          (Inl (PortNotConfigured ''check_frame''), [])"
    by (simp add: getInput_def declared_only_conf_def)
  then have "tick declared_only_conf scenario_true =
               (Inl (BlackboardEntryError []), scenario_true)"
    by (simp add: tick_cases Blackboard_get_bool_def scenario_true_def)
  then show ?thesis
    by (simp add: BT_REGISTER_NODES_def registerNodeType_def providedPorts_def)
qed

text \<open>
  C10.  The port \<^verbatim>\<open>check_frame\<close> is not among the declared ports, and the evaluation
  ignores whether reading it succeeded: when the read fails, the outcome of \<open>tick\<close> is the
  outcome of the boolean lookup under the empty string, the initial value of the local
  \<^verbatim>\<open>check_frame\<close>.  The error of the read is dropped; only the lookup can end the
  evaluation with an error.
\<close>

theorem failed_read_looks_up_empty_key:
  assumes "fst (getInput conf bb ''check_frame'' []) = Inl e"
  shows "''check_frame'' \<notin> set (map fst providedPorts) \<and>
         tick conf bb =
           (case Blackboard_get_bool bb [] of
              Inl e' \<Rightarrow> (Inl e', bb)
            | Inr b \<Rightarrow>
                if b then (Inr SUCCESS, snd (setOutput conf bb ''empty_frame'' []))
                else (Inr FAILURE, bb))"
proof -
  from assms have "snd (getInput conf bb ''check_frame'' []) = []"
    by (rule getInput_failed_keeps_destination)
  then have "tick conf bb =
           (case Blackboard_get_bool bb [] of
              Inl e' \<Rightarrow> (Inl e', bb)
            | Inr b \<Rightarrow>
                if b then (Inr SUCCESS, snd (setOutput conf bb ''empty_frame'' []))
                else (Inr FAILURE, bb))"
    by (simp add: tick_cases split: sum.splits)
  then show ?thesis by (simp add: providedPorts_def)
qed

theorem failed_read_looks_up_empty_key_witness:
  "fst (getInput declared_only_conf empty_key_true ''check_frame'' []) =
     Inl (PortNotConfigured ''check_frame'') \<and>
   Blackboard_get_bool empty_key_true [] = Inr True \<and>
   tick declared_only_conf empty_key_true =
     (Inr SUCCESS, empty_key_true(''empty_frame'' \<mapsto> AnyString []))"
proof -
  have r: "fst (getInput declared_only_conf empty_key_true ''check_frame'' []) =
             Inl (PortNotConfigured ''check_frame'')"
    by (simp add: getInput_def declared_only_conf_def)
  have l: "Blackboard_get_bool empty_key_true [] = Inr True"
    by (simp add: Blackboard_get_bool_def empty_key_true_def)
  have o: "output_ports declared_only_conf ''empty_frame'' = Some ''empty_frame''"
    by (simp add: declared_only_conf_def)
  from failed_read_looks_up_empty_key [OF r] r l show ?thesis
    by (simp add: setOutput_wired [OF o])
qed

section \<open>Properties of the planning demo driver\<close>

lemma plan_requests_append: "plan_requests (xs @ ys) = plan_requests xs @ plan_requests ys"
  by (induction xs rule: plan_requests.induct) simp_all

lemma publications_append: "publications (xs @ ys) = publications xs @ publications ys"
  by (induction xs rule: publications.induct) simp_all

subsection \<open>The replay loop\<close>

lemma visualizeLoop_done:
  "\<not> i < getWayPointCount trajectory \<Longrightarrow>
   visualizeLoop env trajectory start_time i waypoint reads = (reads, [])"
  by (subst visualizeLoop.simps) simp

lemma visualizeLoop_step:
  "i < getWayPointCount trajectory \<Longrightarrow>
   visualizeLoop env trajectory start_time i waypoint reads =
     (let waypoint' = waypoint\<lparr>state := robotStateToRobotStateMsg env (getWayPoint trajectory i)\<rparr>;
          rest = visualizeLoop env trajectory start_time (Suc i) waypoint' (Suc reads)
      in (fst rest,
          (if start_time + getWayPointDurationFromStart trajectory i > now env reads
           then [SleepFor (start_time + getWayPointDurationFromStart trajectory i - now env reads)]
           else []) @ [PublishRobotState waypoint'] @ snd rest))"
  by (subst visualizeLoop.simps) (simp add: Let_def split: prod.splits)

text \<open>The loop issues no plan request.\<close>

lemma plan_requests_visualizeLoop:
  "plan_requests (snd (visualizeLoop env trajectory start_time i waypoint reads)) = []"
proof (induction "getWayPointCount trajectory - i" arbitrary: i waypoint reads)
  case 0
  then show ?case by (simp add: visualizeLoop_done)
next
  case (Suc n)
  then have less: "i < getWayPointCount trajectory" and "n = getWayPointCount trajectory - Suc i"
    by simp_all
  with Suc.hyps(1) show ?case
    by (simp add: visualizeLoop_step Let_def plan_requests_append)
qed

text \<open>From index \<open>i\<close> on, the loop publishes the remaining waypoints, one message each, in order.\<close>

lemma publications_visualizeLoop:
  "highlight_links waypoint = [] \<Longrightarrow>
   publications (snd (visualizeLoop env trajectory start_time i waypoint reads)) =
   map (\<lambda>p. PublishRobotState
               \<lparr>state = robotStateToRobotStateMsg env (fst p), highlight_links = []\<rparr>)
       (drop i trajectory)"
proof (induction "getWayPointCount trajectory - i" arbitrary: i waypoint reads)
  case 0
  then show ?case by (simp add: visualizeLoop_done getWayPointCount_def)
next
  case (Suc n)
  then have less: "i < getWayPointCount trajectory"
    and n: "n = getWayPointCount trajectory - Suc i"
    by simp_all
  let ?w = "waypoint\<lparr>state := robotStateToRobotStateMsg env (getWayPoint trajectory i)\<rparr>"
  have w: "?w = \<lparr>state = robotStateToRobotStateMsg env (fst (trajectory ! i)),
                 highlight_links = []\<rparr>"
    using Suc.prems by (simp add: getWayPoint_def)
  have hl: "highlight_links ?w = []" using Suc.prems by simp
  have d: "drop i trajectory = trajectory ! i # drop (Suc i) trajectory"
    using less by (simp add: getWayPointCount_def Cons_nth_drop_Suc)
  from Suc.hyps(1) [OF n hl, of "Suc reads"] less w d show ?case
    by (simp add: visualizeLoop_step Let_def publications_append)
qed

subsection \<open>The three ways through \<open>move\<close>\<close>

lemma move_not_initialised:
  "moveit_cpp demo = None \<or> arm demo = None \<Longrightarrow> move env demo = Inl NullPointerDereference"
  by (auto simp: move_def Let_def split: option.splits)

lemma move_no_plan:
  assumes "moveit_cpp demo = Some u" "arm demo = Some component"
      and "plan env component (requested env demo) = None"
  shows "\<exists>demo'. default_parameters demo' = requested env demo \<and>
           move env demo =
             Inr (demo', [LogInfo ''Plan to goal'', PlanRequest (requested env demo)])"
proof (cases "getPlanningPipelineNames env ''manipulator'' = []")
  case True
  with assms show ?thesis by (simp add: move_def Let_def requested_def)
next
  case False
  with assms show ?thesis by (simp add: move_def Let_def requested_def)
qed

lemma move_plan:
  assumes "moveit_cpp demo = Some u" "arm demo = Some component"
      and "plan env component (requested env demo) = Some trajectory"
  shows "\<exists>demo'. default_parameters demo' = requested env demo \<and>
           move env demo =
             Inr (demo',
                  [LogInfo ''Plan to goal'', PlanRequest (requested env demo)] @
                  snd (visualizeLoop env trajectory (now env (clock_reads demo)) 0
                         \<lparr>state = [], highlight_links = []\<rparr> (Suc (clock_reads demo))) @
                  [LogInfo ''Sending the trajectory for execution'',
                   PublishJointTrajectory
                     (joint_trajectory (getRobotTrajectoryMsg env trajectory))])"
proof (cases "getPlanningPipelineNames env ''manipulator'' = []")
  case True
  with assms show ?thesis
    by (simp add: move_def Let_def requested_def visualizeTrajectory_def split: prod.splits)
next
  case False
  with assms show ?thesis
    by (simp add: move_def Let_def requested_def visualizeTrajectory_def split: prod.splits)
qed

lemma requested_fixed:
  "planning_attempts (requested env demo) = 1 \<and>
   planning_time (requested env demo) = 5.0 \<and>
   max_velocity_scaling_factor (requested env demo) = 0.4 \<and>
   max_acceleration_scaling_factor (requested env demo) = 0.4"
  by (simp add: requested_def Let_def)

lemma init_members:
  "moveit_cpp (init fresh_demo) = Some () \<and>
   arm (init fresh_demo) = Some \<lparr>group_name = ''manipulator'', goal = None\<rparr>"
  by (simp add: init_def)

lemma move_plan_requests:
  assumes "move env demo = Inr (demo', evs)"
  shows "plan_requests evs = [requested env demo]"
proof -
  from assms obtain u component where i: "moveit_cpp demo = Some u" "arm demo = Some component"
    using move_not_initialised [of demo env] by (cases "moveit_cpp demo"; cases "arm demo") auto
  show ?thesis
  proof (cases "plan env component (requested env demo)")
    case None
    from move_no_plan [OF i None] assms show ?thesis by auto
  next
    case (Some trajectory)
    from move_plan [OF i Some] assms show ?thesis
      by (auto simp: plan_requests_append plan_requests_visualizeLoop)
  qed
qed

text \<open>Both callbacks set the goal and run \<open>move\<close>; their plan requests are those of \<open>move\<close>.\<close>

lemma frame_callback_plan_requests:
  assumes "frame_callback env demo msg = Inr (demo', evs)"
  shows "\<exists>demo0. plan_requests evs = [requested env demo0]"
proof -
  from assms obtain component evs0 where
    "move env (demo\<lparr>arm := Some (component\<lparr>goal := Some (NamedGoal msg)\<rparr>)\<rparr>) = Inr (demo', evs0)"
    and "evs = LogInfo ''Frame Received: %s'' # evs0"
    by (auto simp: frame_callback_def split: option.splits sum.splits)
  then show ?thesis using move_plan_requests by fastforce
qed

lemma goalpose_callback_plan_requests:
  assumes "goalpose_callback env demo msg = Inr (demo', evs)"
  shows "\<exists>demo0. plan_requests evs = [requested env demo0]"
proof -
  from assms obtain component evs0 where
    "move env (demo\<lparr>arm := Some (component\<lparr>goal := Some (PoseGoal msg ''tool0'')\<rparr>)\<rparr>) =
       Inr (demo', evs0)"
    and "evs = LogInfo ''GoalPose Received: %f, %f, %f'' # evs0"
    by (auto simp: goalpose_callback_def split: option.splits sum.splits)
  then show ?thesis using move_plan_requests by fastforce
qed

text \<open>
  C8.  In every run of \<open>move\<close> that returns, there is a plan request, and every plan request
  among its events carries 1 planning attempt, a planning time of 5.0 seconds, and the
  factor 0.4 for both the maximum velocity scaling and the maximum acceleration scaling.
\<close>

theorem move_plan_request_parameters:
  assumes "move env demo = Inr (demo', evs)"
  shows "plan_requests evs \<noteq> [] \<and>
         (\<forall>p \<in> set (plan_requests evs).
            planning_attempts p = 1 \<and> planning_time p = 5.0 \<and>
            max_velocity_scaling_factor p = 0.4 \<and> max_acceleration_scaling_factor p = 0.4)"
  using move_plan_requests [OF assms] by (simp add: requested_fixed)

theorem move_plan_request_parameters_witness:
  "move env_no_plan (init fresh_demo) =
     Inr (init fresh_demo
            \<lparr>planning_pipeline_names := [''ompl''],
             default_parameters :=
               \<lparr>planning_pipeline = ''ompl'', planning_attempts = 1, planning_time = 5.0,
                max_velocity_scaling_factor = 0.4, max_acceleration_scaling_factor = 0.4\<rparr>\<rparr>,
          [LogInfo ''Plan to goal'',
           PlanRequest
             \<lparr>planning_pipeline = ''ompl'', planning_attempts = 1, planning_time = 5.0,
              max_velocity_scaling_factor = 0.4, max_acceleration_scaling_factor = 0.4\<rparr>]) \<and>
   plan_requests
     [LogInfo ''Plan to goal'',
      PlanRequest
        \<lparr>planning_pipeline = ''ompl'', planning_attempts = 1, planning_time = 5.0,
         max_velocity_scaling_factor = 0.4, max_acceleration_scaling_factor = 0.4\<rparr>] \<noteq> []"
proof -
  have m: "move env_no_plan (init fresh_demo) =
     Inr (init fresh_demo
            \<lparr>planning_pipeline_names := [''ompl''],
             default_parameters :=
               \<lparr>planning_pipeline = ''ompl'', planning_attempts = 1, planning_time = 5.0,
                max_velocity_scaling_factor = 0.4, max_acceleration_scaling_factor = 0.4\<rparr>\<rparr>,
          [LogInfo ''Plan to goal'',
           PlanRequest
             \<lparr>planning_pipeline = ''ompl'', planning_attempts = 1, planning_time = 5.0,
              max_velocity_scaling_factor = 0.4, max_acceleration_scaling_factor = 0.4\<rparr>])"
    by (simp add: move_def Let_def init_def fresh_demo_def env_no_plan_def env_plan_found_def)
  from move_plan_request_parameters [OF m] m show ?thesis by blast
qed

text \<open>
  C9.  Once \<^verbatim>\<open>init()\<close> has set \<^verbatim>\<open>moveit_cpp_\<close> and \<^verbatim>\<open>arm\<close>, \<open>move\<close> returns to its
  caller without an error, having issued one plan request.  When that request yields no
  plan, the run publishes nothing.  When it yields a trajectory, the run publishes one
  robot-state message per waypoint, in the order of the waypoints, and after them the
  joint trajectory of the whole plan, once.
\<close>

theorem move_publications:
  assumes "moveit_cpp demo = Some u" and "arm demo = Some component"
  shows "\<exists>demo' evs. move env demo = Inr (demo', evs) \<and>
           plan_requests evs = [default_parameters demo'] \<and>
           (case plan env component (default_parameters demo') of
              None \<Rightarrow> publications evs = []
            | Some trajectory \<Rightarrow>
                publications evs =
                  map (\<lambda>p. PublishRobotState
                              \<lparr>state = robotStateToRobotStateMsg env (fst p),
                               highlight_links = []\<rparr>) trajectory @
                  [PublishJointTrajectory
                     (joint_trajectory (getRobotTrajectoryMsg env trajectory))])"
proof (cases "plan env component (requested env demo)")
  case None
  from move_no_plan [OF assms None] None show ?thesis by auto
next
  case (Some trajectory)
  from move_plan [OF assms Some] obtain demo' where
    d: "default_parameters demo' = requested env demo" and
    m: "move env demo =
          Inr (demo',
               [LogInfo ''Plan to goal'', PlanRequest (requested env demo)] @
               snd (visualizeLoop env trajectory (now env (clock_reads demo)) 0
                      \<lparr>state = [], highlight_links = []\<rparr> (Suc (clock_reads demo))) @
               [LogInfo ''Sending the trajectory for execution'',
                PublishJointTrajectory
                  (joint_trajectory (getRobotTrajectoryMsg env trajectory))])"
    by blast
  show ?thesis
    using d m Some
    by (simp add: plan_requests_append plan_requests_visualizeLoop
          publications_append publications_visualizeLoop)
qed

theorem move_publications_witness:
  "moveit_cpp (init fresh_demo) = Some () \<and>
   arm (init fresh_demo) = Some \<lparr>group_name = ''manipulator'', goal = None\<rparr> \<and>
   (\<exists>demo' evs. move env_no_plan (init fresh_demo) = Inr (demo', evs) \<and>
                 publications evs = []) \<and>
   (\<exists>demo' evs. move env_plan_found (init fresh_demo) = Inr (demo', evs) \<and>
                 publications evs =
                   [PublishRobotState \<lparr>state = [0, 0], highlight_links = []\<rparr>,
                    PublishRobotState \<lparr>state = [1, 2], highlight_links = []\<rparr>,
                    PublishJointTrajectory two_waypoints])"
proof -
  note i = init_members
  note none = move_publications [of "init fresh_demo" "()" _ env_no_plan,
                OF conjunct1 [OF i] conjunct2 [OF i]]
  note found = move_publications [of "init fresh_demo" "()" _ env_plan_found,
                 OF conjunct1 [OF i] conjunct2 [OF i]]
  have pn: "\<And>c p. plan env_no_plan c p = None"
    by (simp add: env_no_plan_def)
  have pf: "\<And>c p. plan env_plan_found c p = Some two_waypoints"
    by (simp add: env_plan_found_def)
  have cs: "robotStateToRobotStateMsg env_plan_found = (\<lambda>s. s)"
    by (simp add: env_plan_found_def)
  have ct: "joint_trajectory (getRobotTrajectoryMsg env_plan_found two_waypoints) = two_waypoints"
    by (simp add: env_plan_found_def)
  from none have a: "\<exists>demo' evs. move env_no_plan (init fresh_demo) = Inr (demo', evs) \<and>
                        publications evs = []"
    unfolding pn by auto
  from found have "\<exists>demo' evs. move env_plan_found (init fresh_demo) = Inr (demo', evs) \<and>
                 publications evs =
                   map (\<lambda>p. PublishRobotState \<lparr>state = fst p, highlight_links = []\<rparr>)
                     two_waypoints @ [PublishJointTrajectory two_waypoints]"
    unfolding pf cs by (auto simp: ct)
  then have b: "\<exists>demo' evs. move env_plan_found (init fresh_demo) = Inr (demo', evs) \<and>
                 publications evs =
                   [PublishRobotState \<lparr>state = [0, 0], highlight_links = []\<rparr>,
                    PublishRobotState \<lparr>state = [1, 2], highlight_links = []\<rparr>,
                    PublishJointTrajectory two_waypoints]"
    by (simp add: two_waypoints_def)
  from a b i show ?thesis by simp
qed

end
